theory Spec2Isabelle
  imports Complex_Main
begin

unbundle bit_operations_syntax

text \<open>
  The RepRap protocol engine of OctoPrint (\<^verbatim>\<open>octoprint/comm/protocol/reprap\<close>): the
  helpers of \<^verbatim>\<open>util/__init__.py\<close> (send token, line history, temperature record,
  normalisation of handler results) and the methods of \<^verbatim>\<open>ReprapGcodeProtocol\<close> that
  number and send lines, handle \<^verbatim>\<open>ok\<close> and timeouts, run the send loop and dispatch
  @-commands, as functions on an explicit state.
\<close>

section \<open>Python values used by the protocol code\<close>

text \<open>
  Exceptions are values. A method that can raise returns an \<open>outcome\<close>: either it
  returned a value and the new state, or it raised and left the state as it was at the
  raise.
\<close>

datatype py_error = TypeError | KeyError | IndexError | AssertionError

datatype ('r, 's) outcome = Returned 'r 's | Raised py_error 's

text \<open>
  Byte strings are \<open>string\<close>s (a \<open>char\<close> is one byte). \<open>str_int\<close> is Python's
  built-in \<open>str\<close> on an integer: the decimal digits, most significant first, with a
  leading minus sign for a negative number.
\<close>

definition digit_char :: "nat \<Rightarrow> char" where
  "digit_char d = char_of (48 + d)"

function str_nat :: "nat \<Rightarrow> string" where
  "str_nat n = (if n < 10 then [digit_char n] else str_nat (n div 10) @ [digit_char (n mod 10)])"
  by pat_completeness auto
termination
  by (relation "measure id") auto

definition str_int :: "int \<Rightarrow> string" where
  "str_int i = (if i < 0 then CHR ''-'' # str_nat (nat (- i)) else str_nat (nat i))"

section \<open>util: SendToken\<close>

text \<open>
  \<^verbatim>\<open>class SendToken(CountedEvent)\<close> of \<^verbatim>\<open>reprap/util/__init__.py\<close>. The fields
  \<open>counter\<close> and \<open>maximum\<close> are those of the base class, \<open>ignored\<close> is the one the
  subclass adds.
\<close>

record send_token =
  counter :: int
  maximum :: "int option"
  ignored :: int

text \<open>
  Modelled from the spec: \<^verbatim>\<open>CountedEvent._internal_set\<close> (octoprint.util) is not among
  the sources. The spec describes the counter as an integer that is at least 0 with an
  optional upper bound, \<^verbatim>\<open>set()\<close> as \<^verbatim>\<open>counter = min(counter+1, max)\<close> and a plain
  \<^verbatim>\<open>clear()\<close> as \<^verbatim>\<open>counter = max(0, counter-1)\<close>: the value stored is the requested
  one, brought into the range from 0 to the maximum.
\<close>

definition internal_set :: "send_token \<Rightarrow> int \<Rightarrow> send_token" where
  "internal_set t v =
     t\<lparr>counter := max 0 (case maximum t of None \<Rightarrow> v | Some m \<Rightarrow> min v m)\<rparr>"

text \<open>
  \<^verbatim>\<open>
  def set(self, ignore=False):
      with self._mutex:
          if ignore:
              self._ignored += 1
          self._internal_set(self._counter + 1)
  \<close>
\<close>

definition set_token :: "send_token \<Rightarrow> bool \<Rightarrow> send_token" where
  "set_token t ignore =
     (let t1 = (if ignore then t\<lparr>ignored := ignored t + 1\<rparr> else t)
      in internal_set t1 (counter t1 + 1))"

text \<open>
  \<^verbatim>\<open>
  def clear(self, completely=False):
      with self._mutex:
          if completely:
              self._internal_set(0)
              self._ignored = 0
          else:
              if self._ignored > 0:
                  self._ignored -= 1
                  self._internal_set(self._counter - 1)
              self._internal_set(self._counter - 1)
  \<close>
\<close>

definition clear_token :: "send_token \<Rightarrow> bool \<Rightarrow> send_token" where
  "clear_token t completely =
     (if completely then (internal_set t 0)\<lparr>ignored := 0\<rparr>
      else
        (let t1 = (if ignored t > 0
                   then internal_set (t\<lparr>ignored := ignored t - 1\<rparr>) (counter t - 1)
                   else t)
         in internal_set t1 (counter t1 - 1)))"

definition blocked :: "send_token \<Rightarrow> bool" where
  "blocked t = (counter t = 0)"

text \<open>The counter of a token lies between 0 and its maximum, when it has one.\<close>

definition token_in_range :: "send_token \<Rightarrow> bool" where
  "token_in_range t =
     (0 \<le> counter t \<and> (case maximum t of None \<Rightarrow> True | Some m \<Rightarrow> counter t \<le> m))"

section \<open>util: TemperatureRecord\<close>

type_synonym temperature = "real option \<times> real option"

record temperature_record =
  tools :: "int \<rightharpoonup> temperature"
  bed :: temperature
  chamber :: temperature

text \<open>
  \<^verbatim>\<open>
  def _to_new_tuple(cls, current, actual, target):
      if current is None or not isinstance(current, tuple) or len(current) != 2:
          current = (None, None)
      if actual is None and target is None:
          return current
      old_actual, old_target = current
      if actual is None:
          return old_actual, target
      elif target is None:
          return actual, old_target
      else:
          return actual, target
  \<close>
  The argument \<open>current\<close> is \<open>None\<close> for a value that is \<^verbatim>\<open>None\<close> or not a pair.
\<close>

definition to_new_tuple ::
  "temperature option \<Rightarrow> real option \<Rightarrow> real option \<Rightarrow> temperature" where
  "to_new_tuple current actual target =
     (let current = (case current of None \<Rightarrow> (None, None) | Some c \<Rightarrow> c)
      in if actual = None \<and> target = None then current
         else
           (let old_actual = fst current; old_target = snd current
            in if actual = None then (old_actual, target)
               else if target = None then (actual, old_target)
               else (actual, target)))"

text \<open>
  \<^verbatim>\<open>
  def set_tool(self, tool, actual=None, target=None):
      current = self._tools.get(tool, (None, None))
      self._tools[tool] = self._to_new_tuple(current, actual, target)
  \<close>
\<close>

definition tools_get :: "temperature_record \<Rightarrow> int \<Rightarrow> temperature" where
  "tools_get r tool = (case tools r tool of None \<Rightarrow> (None, None) | Some c \<Rightarrow> c)"

definition set_tool ::
  "temperature_record \<Rightarrow> int \<Rightarrow> real option \<Rightarrow> real option \<Rightarrow> temperature_record" where
  "set_tool r tool actual target =
     (let current = tools_get r tool
      in r\<lparr>tools := (tools r)(tool \<mapsto> to_new_tuple (Some current) actual target)\<rparr>)"

definition set_bed ::
  "temperature_record \<Rightarrow> real option \<Rightarrow> real option \<Rightarrow> temperature_record" where
  "set_bed r actual target =
     (let current = bed r in r\<lparr>bed := to_new_tuple (Some current) actual target\<rparr>)"

definition set_chamber ::
  "temperature_record \<Rightarrow> real option \<Rightarrow> real option \<Rightarrow> temperature_record" where
  "set_chamber r actual target =
     (let current = chamber r in r\<lparr>chamber := to_new_tuple (Some current) actual target\<rparr>)"

section \<open>util: normalize_command_handler_result\<close>

text \<open>
  Modelled from the spec: the classes \<^verbatim>\<open>Command\<close>, \<^verbatim>\<open>GcodeCommand\<close>, \<^verbatim>\<open>AtCommand\<close>
  and the function \<^verbatim>\<open>to_command\<close> (octoprint.comm.protocol.reprap.commands) are not
  among the sources. By the spec's data model a command is a value that carries its
  line, what the line parses to (a G-code, an @-command or plain text), an optional type
  and a set of tags; \<^verbatim>\<open>to_command(line, type=..., tags=...)\<close> builds the command of a
  line with the given type and tags, as the doctests of
  \<^verbatim>\<open>normalize_command_handler_result\<close> show. The parser is a parameter.
\<close>

record 'p command =
  line :: string
  parsed :: 'p
  ctype :: "string option"
  tags :: "string set"

definition to_command ::
  "(string \<Rightarrow> 'p) \<Rightarrow> string \<Rightarrow> string option \<Rightarrow> string set \<Rightarrow> 'p command" where
  "to_command parse l t g = \<lparr>line = l, parsed = parse l, ctype = t, tags = g\<rparr>"













section \<open>util: LineHistory\<close>

record line_history =
  max_h :: "int option"
  lines :: "(string \<times> int option) list"
  line_number_lookup :: "int \<rightharpoonup> string"

text \<open>
  \<^verbatim>\<open>
  def _cleanup(self):
      if len(self._lines) <= self.max:
          return
      while len(self._lines) > self.max:
          _, line_number = self._lines.pop(0)
          if line_number is not None:
              try:
                  del self._line_number_lookup[line_number]
              except KeyError:
                  pass
  \<close>
  The loop, on the list of lines and the lookup table: \<^verbatim>\<open>pop(0)\<close> on an empty list
  raises IndexError (reached with a negative \<open>max\<close>). Comparing a length with a \<open>max\<close>
  that is \<^verbatim>\<open>None\<close> raises TypeError.
\<close>

fun cleanup_while ::
  "int \<Rightarrow> (string \<times> int option) list \<Rightarrow> (int \<rightharpoonup> string) \<Rightarrow>
   py_error option \<times> (string \<times> int option) list \<times> (int \<rightharpoonup> string)" where
  "cleanup_while m [] lk = (if 0 > m then (Some IndexError, [], lk) else (None, [], lk))"
| "cleanup_while m (e # es) lk =
     (if int (length (e # es)) > m
      then cleanup_while m es (case snd e of None \<Rightarrow> lk | Some k \<Rightarrow> lk(k := None))
      else (None, e # es, lk))"

definition cleanup :: "line_history \<Rightarrow> (unit, line_history) outcome" where
  "cleanup h =
     (case max_h h of
        None \<Rightarrow> Raised TypeError h
      | Some m \<Rightarrow>
          if int (length (lines h)) \<le> m then Returned () h
          else
            (case cleanup_while m (lines h) (line_number_lookup h) of
               (None, ls, lk) \<Rightarrow> Returned () (h\<lparr>lines := ls, line_number_lookup := lk\<rparr>)
             | (Some e, ls, lk) \<Rightarrow> Raised e (h\<lparr>lines := ls, line_number_lookup := lk\<rparr>)))"

text \<open>
  \<^verbatim>\<open>
  def append(self, line, line_number=None):
      with self._mutex:
          self._lines.append((line, line_number))
          if line_number is not None:
              self._line_number_lookup[line_number] = line
          self._cleanup()
  \<close>
\<close>

definition append_h ::
  "line_history \<Rightarrow> string \<Rightarrow> int option \<Rightarrow> (unit, line_history) outcome" where
  "append_h h l line_number =
     cleanup (h\<lparr>lines := lines h @ [(l, line_number)],
                line_number_lookup :=
                  (case line_number of
                     None \<Rightarrow> line_number_lookup h
                   | Some k \<Rightarrow> (line_number_lookup h)(k \<mapsto> l))\<rparr>)"

definition clear_h :: "line_history \<Rightarrow> line_history" where
  "clear_h h = h\<lparr>lines := [], line_number_lookup := Map.empty\<rparr>"

text \<open>
  \<^verbatim>\<open>__getitem__\<close>, with \<open>None\<close> for the KeyError; the key may be \<^verbatim>\<open>None\<close>, which is
  never in the lookup table.
\<close>

definition getitem_h :: "line_history \<Rightarrow> int option \<Rightarrow> string option" where
  "getitem_h h line_number =
     (case line_number of None \<Rightarrow> None | Some k \<Rightarrow> line_number_lookup h k)"

text \<open>
  The line numbers in a history are all below \<open>n\<close>. The engine keeps its history below
  its current line number: it appends under the current number and then increments it,
  and where it sets the number (\<^verbatim>\<open>__init__\<close>, \<^verbatim>\<open>M110\<close>, an external reset) the history
  is empty.
\<close>

definition history_below :: "line_history \<Rightarrow> int \<Rightarrow> bool" where
  "history_below h n =
     list_all (\<lambda>e. case snd e of None \<Rightarrow> True | Some k \<Rightarrow> k < n) (lines h)"


section \<open>The protocol engine: data\<close>

text \<open>
  Modelled from the spec: the enumeration \<^verbatim>\<open>ProtocolState\<close> (octoprint.comm.protocol)
  is not among the sources. The spec lists its twelve values and calls a state
  operational when it is not one of the two disconnected ones, as \<^verbatim>\<open>_is_operational\<close>
  of the engine does.
\<close>

datatype protocol_state =
    DISCONNECTED | DISCONNECTED_WITH_ERROR | CONNECTING | CONNECTED | STARTING
  | PROCESSING | PAUSING | PAUSED | RESUMING | CANCELLING | FINISHING | ERROR

definition OPERATIONAL_STATES :: "protocol_state set" where
  "OPERATIONAL_STATES = - {DISCONNECTED, DISCONNECTED_WITH_ERROR}"

text \<open>
  What a command line parses to. A G-code has a code and named parameters, whose values
  are integers, floats or the flag \<^verbatim>\<open>True\<close> (as the tests of \<^verbatim>\<open>GcodeCommand\<close> show);
  \<open>OtherV\<close> stands for a true value that \<^verbatim>\<open>int()\<close> rejects. An @-command has a name
  and a parameter string.
\<close>

datatype param_value = IntV int | FloatV real | FlagV | OtherV

datatype parsed =
    Gcode string "string \<rightharpoonup> param_value"
  | At string string
  | Text

type_synonym cmd = "parsed command"

definition is_gcode :: "cmd \<Rightarrow> bool" where
  "is_gcode c = (case parsed c of Gcode gc ps \<Rightarrow> True | _ \<Rightarrow> False)"

definition is_atcommand :: "cmd \<Rightarrow> bool" where
  "is_atcommand c = (case parsed c of At a ps \<Rightarrow> True | _ \<Rightarrow> False)"

definition code :: "cmd \<Rightarrow> string option" where
  "code c = (case parsed c of Gcode gc ps \<Rightarrow> Some gc | _ \<Rightarrow> None)"

definition param :: "cmd \<Rightarrow> string \<Rightarrow> param_value option" where
  "param c name = (case parsed c of Gcode gc ps \<Rightarrow> ps name | _ \<Rightarrow> None)"

text \<open>Python's truth value of a parameter, and \<^verbatim>\<open>int(...)\<close> of it (\<open>None\<close>: it raises).\<close>

definition truthy :: "param_value option \<Rightarrow> bool" where
  "truthy v =
     (case v of
        None \<Rightarrow> False
      | Some (IntV k) \<Rightarrow> k \<noteq> 0
      | Some (FloatV x) \<Rightarrow> x \<noteq> 0
      | Some FlagV \<Rightarrow> True
      | Some OtherV \<Rightarrow> True)"

definition py_int :: "param_value \<Rightarrow> int option" where
  "py_int v =
     (case v of
        IntV k \<Rightarrow> Some k
      | FloatV x \<Rightarrow> Some (if 0 \<le> x then \<lfloor>x\<rfloor> else \<lceil>x\<rceil>)
      | FlagV \<Rightarrow> Some 1
      | OtherV \<Rightarrow> None)"

text \<open>
  The fields of the flavor that the code below reads (the flavor classes are not among
  the sources), and the dictionary \<^verbatim>\<open>max_consecutive_timeouts\<close> with its three keys.
\<close>

record flavor =
  send_checksum :: string
  unknown_requires_ack :: bool
  unknown_with_checksum :: bool
  checksum_requiring_commands :: "string set"
  block_while_dwelling :: bool

record consecutive_timeouts =
  idle :: int
  printing :: int
  long :: int

datatype job = LocalGcodeStreamjob | SDFilePrintjob | OtherJob

text \<open>
  The container of the @-command hooks: a dictionary from the phase to the hooks, or a
  tuple of such dictionaries. A hook is known by its name.
\<close>

datatype hook_container =
    HooksDict "string \<rightharpoonup> string list"
  | HooksTuple "(string \<rightharpoonup> string list) list"

text \<open>
  Calls that leave the code modelled here (the transport, the queues, listeners, timers,
  plugin hooks, the job and state transitions) are recorded in a trace, in the order in
  which they are made. Calls on the send token are recorded too, next to their effect
  on the token.
\<close>

datatype action =
    TransportWrite string
  | Disconnect bool
  | ProtocolLog
  | NotifyListeners string
  | CancelResendOkTimer
  | TokenSet bool
  | TokenClear bool
  | EnqueueForSending string "int option" bool bool
  | SendCommand cmd
  | ContinueSending
  | RunMarker
  | Sleep
  | OnSent
  | CommandPhase string cmd
  | TaskDone
  | Hook string
  | PauseProcessing "string set"
  | CancelProcessing "string set"
  | ResumeProcessing "string set"

text \<open>
  The state of \<^verbatim>\<open>ReprapGcodeProtocol\<close> that the modelled methods read and write: its
  attributes and the entries of \<^verbatim>\<open>_internal_flags\<close>, under their names. Times are
  real numbers. \<open>dwelling_until\<close> is \<open>None\<close> for \<^verbatim>\<open>None\<close> and \<^verbatim>\<open>False\<close>.
\<close>

record protocol =
  state :: protocol_state
  error :: "string option"
  flavor :: flavor
  job :: "job option"
  transport_message_integrity :: bool
  timeouts :: "string \<rightharpoonup> real"
  max_consecutive_timeouts :: consecutive_timeouts
  clear_to_send :: send_token
  current_linenumber :: "int option"
  last_lines :: line_history
  last_communication_error :: "string option"
  send_queue_active :: bool
  send_queue_resend_active :: bool
  resend_ok_timer :: bool
  atcommand_hooks :: hook_container
  heating_start :: "real option"
  heating_lost :: real
  heating :: bool
  current_tool :: int
  former_tool :: "int option"
  resend_requested :: "int option"
  resend_linenumber :: "int option"
  resend_count :: "int option"
  long_running_command :: bool
  ignore_ok :: int
  timeout_consecutive :: int
  ok_timeout :: "real option"
  dwelling_until :: "real option"
  firmware_identified :: bool
  busy_detected :: bool
  trace :: "action list"

text \<open>
  What the methods take from outside: the readings of \<^verbatim>\<open>time.monotonic()\<close> (numbered
  by the place in a method where the clock is read), the conversions \<^verbatim>\<open>to_unicode\<close> and
  \<^verbatim>\<open>to_bytes\<close> and the property \<^verbatim>\<open>Command.bytes\<close>, the parser of \<^verbatim>\<open>to_command\<close>,
  whether the send queue takes a command (\<^verbatim>\<open>put\<close> does not raise
  \<^verbatim>\<open>TypeAlreadyInQueue\<close>), what \<^verbatim>\<open>_send_command\<close> returns, and
  \<^verbatim>\<open>_process_command_phase\<close> with the plugin hooks and handlers behind it, which
  returns a list of commands and may change the state.
\<close>

record env =
  monotonic :: "nat \<Rightarrow> real"
  to_unicode :: "string \<Rightarrow> string"
  to_bytes :: "string \<Rightarrow> string"
  command_bytes :: "cmd \<Rightarrow> string"
  parse_line :: "string \<Rightarrow> parsed"
  send_queue_accepts :: "cmd \<Rightarrow> bool"
  send_command_result :: "cmd \<Rightarrow> bool"
  process_command_phase :: "string \<Rightarrow> cmd \<Rightarrow> protocol \<Rightarrow> cmd list \<times> protocol"

definition emit :: "action \<Rightarrow> protocol \<Rightarrow> protocol" where
  "emit a s = s\<lparr>trace := trace s @ [a]\<rparr>"

text \<open>The actions recorded between a state and a later one.\<close>

definition new_actions :: "protocol \<Rightarrow> protocol \<Rightarrow> action list" where
  "new_actions s s' = drop (length (trace s)) (trace s')"

definition outcome_state :: "('r, 's) outcome \<Rightarrow> 's" where
  "outcome_state out = (case out of Returned r s \<Rightarrow> s | Raised e s \<Rightarrow> s)"

definition token_set :: "protocol \<Rightarrow> protocol" where
  "token_set s = emit (TokenSet False) (s\<lparr>clear_to_send := set_token (clear_to_send s) False\<rparr>)"

definition token_clear :: "protocol \<Rightarrow> protocol" where
  "token_clear s =
     emit (TokenClear False) (s\<lparr>clear_to_send := clear_token (clear_to_send s) False\<rparr>)"

text \<open>
  \<^verbatim>\<open>
  def _get_timeout(self, timeout_type):
      if timeout_type in self.timeouts:
          return time.monotonic() + self.timeouts[timeout_type]
      else:
          return time.monotonic()
  \<close>
\<close>

definition get_timeout :: "env \<Rightarrow> nat \<Rightarrow> protocol \<Rightarrow> string \<Rightarrow> real" where
  "get_timeout ev k s timeout_type =
     (case timeouts s timeout_type of
        Some t \<Rightarrow> monotonic ev k + t
      | None \<Rightarrow> monotonic ev k)"

definition is_busy :: "protocol \<Rightarrow> bool" where
  "is_busy s = (state s \<in> {PROCESSING, PAUSED})"

definition is_streaming :: "protocol \<Rightarrow> bool" where
  "is_streaming s = (is_busy s \<and> job s = Some LocalGcodeStreamjob)"

section \<open>The protocol engine: sending a line\<close>

text \<open>
  \<^verbatim>\<open>
  def _do_send_without_checksum(self, data):
      self._transport.write(data + b"\n")
  \<close>
\<close>

definition do_send_without_checksum :: "protocol \<Rightarrow> string \<Rightarrow> protocol" where
  "do_send_without_checksum s data = emit (TransportWrite (data @ [CHR 0x0A])) s"

text \<open>
  \<^verbatim>\<open>
  checksum = 0
  for c in bytearray(command_to_send):
      checksum ^= c
  \<close>
\<close>

fun checksum_loop :: "string \<Rightarrow> int \<Rightarrow> int" where
  "checksum_loop [] checksum = checksum"
| "checksum_loop (c # cs) checksum = checksum_loop cs (checksum XOR of_char c)"

text \<open>
  \<^verbatim>\<open>
  def _do_send_with_checksum(self, line, line_number):
      command_to_send = b"N" + str(line_number).encode("ascii") + b" " + line
      checksum = 0
      for c in bytearray(command_to_send):
          checksum ^= c
      command_to_send = command_to_send + b"*" + str(checksum).encode("ascii")
      self._do_send_without_checksum(command_to_send)
  \<close>
\<close>

definition do_send_with_checksum :: "protocol \<Rightarrow> string \<Rightarrow> int \<Rightarrow> protocol" where
  "do_send_with_checksum s data line_number =
     (let command_to_send = ''N'' @ str_int line_number @ '' '' @ data;
          checksum = checksum_loop command_to_send 0;
          command_to_send = command_to_send @ ''*'' @ str_int checksum
      in do_send_without_checksum s command_to_send)"

text \<open>
  \<^verbatim>\<open>
  def _add_to_last_lines(self, command, line_number=None):
      self._last_lines.append(command, line_number=line_number)
  \<close>
\<close>

definition add_to_last_lines ::
  "protocol \<Rightarrow> string \<Rightarrow> int option \<Rightarrow> (unit, protocol) outcome" where
  "add_to_last_lines s command line_number =
     (case append_h (last_lines s) command line_number of
        Returned u h \<Rightarrow> Returned () (s\<lparr>last_lines := h\<rparr>)
      | Raised e h \<Rightarrow> Raised e (s\<lparr>last_lines := h\<rparr>))"

text \<open>
  \<^verbatim>\<open>
  def _do_increment_and_send_with_checksum(self, line):
      with self._line_mutex:
          line_number = self._current_linenumber
          self._add_to_last_lines(to_unicode(line), line_number=line_number)
          self._current_linenumber += 1
          self._do_send_with_checksum(line, line_number)
  \<close>
  The body runs under the line mutex: it is one step of the model. Adding 1 to a line
  number that is \<^verbatim>\<open>None\<close> raises TypeError; \<^verbatim>\<open>append\<close> does not touch the line
  number, so it is still the value of \<open>line_number\<close> then.
\<close>

definition do_increment_and_send_with_checksum ::
  "env \<Rightarrow> protocol \<Rightarrow> string \<Rightarrow> (unit, protocol) outcome" where
  "do_increment_and_send_with_checksum ev s data =
     (let line_number = current_linenumber s
      in case add_to_last_lines s (to_unicode ev data) line_number of
           Raised e s1 \<Rightarrow> Raised e s1
         | Returned u s1 \<Rightarrow>
             (case line_number of
                None \<Rightarrow> Raised TypeError s1
              | Some n \<Rightarrow>
                  (let s2 = s1\<lparr>current_linenumber := Some (n + 1)\<rparr>
                   in Returned () (do_send_with_checksum s2 data n))))"

text \<open>
  \<^verbatim>\<open>
  def _checksum_enabled(self):
      if not self._transport.message_integrity:
          return self.flavor.send_checksum != "never" and (
              self.state == ProtocolState.PROCESSING
              or self.flavor.send_checksum == "always"
              or not self._internal_flags["firmware_identified"])
      else:
          return False
  \<close>
\<close>

definition checksum_enabled :: "protocol \<Rightarrow> bool" where
  "checksum_enabled s =
     (if \<not> transport_message_integrity s
      then send_checksum (flavor s) \<noteq> ''never''
           \<and> (state s = PROCESSING \<or> send_checksum (flavor s) = ''always''
                \<or> \<not> firmware_identified s)
      else False)"

text \<open>
  \<^verbatim>\<open>
  def _needs_checksum(self, command):
      if not self._transport.message_integrity:
          command_requiring_checksum = (
              isinstance(command, GcodeCommand)
              and command.code in self.flavor.checksum_requiring_commands)
          command_allowing_checksum = (
              isinstance(command, GcodeCommand) or self.flavor.unknown_with_checksum)
          return command_requiring_checksum or (
              command_allowing_checksum and self._checksum_enabled)
      else:
          return False
  \<close>
\<close>

definition needs_checksum :: "protocol \<Rightarrow> cmd \<Rightarrow> bool" where
  "needs_checksum s command =
     (if \<not> transport_message_integrity s
      then
        (let command_requiring_checksum =
               (case code command of
                  Some gc \<Rightarrow> gc \<in> checksum_requiring_commands (flavor s)
                | None \<Rightarrow> False);
             command_allowing_checksum =
               (is_gcode command \<or> unknown_with_checksum (flavor s))
         in command_requiring_checksum \<or> (command_allowing_checksum \<and> checksum_enabled s))
      else False)"

text \<open>
  \<^verbatim>\<open>
  def _do_send(self, command):
      if self._needs_checksum(command):
          self._do_increment_and_send_with_checksum(command.bytes)
      else:
          self._do_send_without_checksum(command.bytes)
  \<close>
\<close>

definition do_send :: "env \<Rightarrow> protocol \<Rightarrow> cmd \<Rightarrow> (unit, protocol) outcome" where
  "do_send ev s command =
     (if needs_checksum s command
      then do_increment_and_send_with_checksum ev s (command_bytes ev command)
      else Returned () (do_send_without_checksum s (command_bytes ev command)))"

text \<open>
  The format of a numbered line in the spec's words: \<^verbatim>\<open>N<linenumber> <payload>*<xor>\<close>,
  where \<^verbatim>\<open><xor>\<close> is the XOR over every byte of \<^verbatim>\<open>N<linenumber> <payload>\<close>, as a
  decimal number. \<open>decimal_value\<close> reads a string of decimal digits back.
\<close>

fun xor_bytes :: "string \<Rightarrow> int" where
  "xor_bytes [] = 0"
| "xor_bytes (c # cs) = of_char c XOR xor_bytes cs"

definition numbered_line :: "int \<Rightarrow> string \<Rightarrow> string" where
  "numbered_line n payload =
     ''N'' @ str_int n @ '' '' @ payload @ ''*''
       @ str_int (xor_bytes (''N'' @ str_int n @ '' '' @ payload))"

fun decimal_value :: "string \<Rightarrow> nat \<Rightarrow> nat" where
  "decimal_value [] acc = acc"
| "decimal_value (c # cs) acc = decimal_value cs (10 * acc + (of_char c - 48))"

section \<open>The protocol engine: line number reset and resends\<close>

text \<open>
  \<^verbatim>\<open>
  def _gcode_M110_sending(self, command):
      new_line_number = None
      if command.n:
          try:
              new_line_number = int(command.n)
          except Exception:
              pass
      else:
          new_line_number = 0
      with self._line_mutex:
          self._current_linenumber = new_line_number
          self._last_lines.clear()
      self._internal_flags["resend_linenumber"] = None
  \<close>
\<close>

definition gcode_M110_sending :: "protocol \<Rightarrow> cmd \<Rightarrow> protocol" where
  "gcode_M110_sending s command =
     (let new_line_number =
            (if truthy (param command ''n'')
             then (case param command ''n'' of None \<Rightarrow> None | Some v \<Rightarrow> py_int v)
             else Some 0);
          s = s\<lparr>current_linenumber := new_line_number\<rparr>;
          s = s\<lparr>last_lines := clear_h (last_lines s)\<rparr>
      in s\<lparr>resend_linenumber := None\<rparr>)"

text \<open>
  A resend window is active when \<open>resend_requested\<close> is set, which is what
  \<^verbatim>\<open>_on_comm_ok\<close> and \<^verbatim>\<open>_on_comm_timeout\<close> test, or when the \<open>resend_active\<close> flag
  of the send queue is set, which gives resend entries the priority.
  \<^verbatim>\<open>_on_comm_resend\<close> sets both, together with \<open>resend_linenumber\<close> and
  \<open>resend_count\<close>; the end of \<^verbatim>\<open>_send_next_from_resend\<close> resets all four.
\<close>

definition resend_window_active :: "protocol \<Rightarrow> bool" where
  "resend_window_active s = (send_queue_resend_active s \<or> resend_requested s \<noteq> None)"

text \<open>
  \<^verbatim>\<open>
  def _finish_heatup(self):
      if self._internal_flags["heating"]:
          if self._internal_flags["heating_start"]:
              self._internal_flags["heating_lost"] = self._internal_flags[
                  "heating_lost"] + (time.monotonic() - self._internal_flags["heating_start"])
              self._internal_flags["heating_start"] = None
          self._internal_flags["heating"] = False
  \<close>
\<close>

definition finish_heatup :: "env \<Rightarrow> nat \<Rightarrow> protocol \<Rightarrow> protocol" where
  "finish_heatup ev k s =
     (if heating s
      then
        (let s = (case heating_start s of
                    None \<Rightarrow> s
                  | Some t \<Rightarrow>
                      if t \<noteq> 0
                      then s\<lparr>heating_lost := heating_lost s + (monotonic ev k - t),
                             heating_start := None\<rparr>
                      else s)
         in s\<lparr>heating := False\<rparr>)
      else s)"

text \<open>
  \<^verbatim>\<open>
  def _send_next_from_resend(self, again=False):
      self._last_communication_error = None
      with self._send_queue_mutex:
          if again:
              if self._internal_flags["resend_linenumber"] is None:
                  self._internal_flags["resend_linenumber"] = self._current_linenumber
              self._internal_flags["resend_linenumber"] -= 1
          linenumber = self._internal_flags["resend_linenumber"]
          try:
              command = self._last_lines[linenumber]
          except KeyError:
              return False
          result = self._enqueue_for_sending(
              to_command(command), linenumber=linenumber, processed=True, resend=True)
          self._internal_flags["resend_linenumber"] += 1
          if self._internal_flags["resend_linenumber"] == self._current_linenumber:
              self._internal_flags["resend_requested"] = None
              self._internal_flags["resend_linenumber"] = None
              self._internal_flags["resend_count"] = 0
              self._send_queue.resend_active = False
          return result
  \<close>
  Subtracting 1 from a line number that is \<^verbatim>\<open>None\<close> raises TypeError. When the line
  is found, \<open>linenumber\<close> is a number.
\<close>

definition send_next_from_resend :: "env \<Rightarrow> protocol \<Rightarrow> bool \<Rightarrow> (bool, protocol) outcome" where
  "send_next_from_resend ev s again =
     (let s = s\<lparr>last_communication_error := None\<rparr>;
          s = (if again \<and> resend_linenumber s = None
               then s\<lparr>resend_linenumber := current_linenumber s\<rparr> else s)
      in if again \<and> resend_linenumber s = None then Raised TypeError s
         else
           (let s = (if again
                     then s\<lparr>resend_linenumber := map_option (\<lambda>k. k - 1) (resend_linenumber s)\<rparr>
                     else s);
                linenumber = resend_linenumber s
            in case getitem_h (last_lines s) linenumber of
                 None \<Rightarrow> Returned False s
               | Some l \<Rightarrow>
                   (let command = to_command (parse_line ev) l None {};
                        result = send_queue_accepts ev command;
                        s = (if result
                             then emit (EnqueueForSending l linenumber True True) s else s);
                        s = s\<lparr>resend_linenumber := map_option (\<lambda>k. k + 1) (resend_linenumber s)\<rparr>;
                        s = (if resend_linenumber s = current_linenumber s
                             then s\<lparr>resend_requested := None, resend_linenumber := None,
                                    resend_count := Some 0, send_queue_resend_active := False\<rparr>
                             else s)
                    in Returned result s)))"

definition send_same_from_resend :: "env \<Rightarrow> protocol \<Rightarrow> (bool, protocol) outcome" where
  "send_same_from_resend ev s = send_next_from_resend ev s True"

section \<open>The protocol engine: timeouts and acknowledgements\<close>

text \<open>
  The maximum of consecutive timeouts that applies, as \<^verbatim>\<open>_on_comm_timeout\<close> picks it:
  \<^verbatim>\<open>
  if self._internal_flags["long_running_command"]:
      consecutive_max = self.max_consecutive_timeouts["long"]
  elif self.state in (ProtocolState.PROCESSING, ProtocolState.PAUSING,
                      ProtocolState.CANCELLING):
      consecutive_max = self.max_consecutive_timeouts["printing"]
  else:
      consecutive_max = self.max_consecutive_timeouts["idle"]
  \<close>
\<close>

definition consecutive_max :: "protocol \<Rightarrow> int" where
  "consecutive_max s =
     (if long_running_command s then long (max_consecutive_timeouts s)
      else if state s \<in> {PROCESSING, PAUSING, CANCELLING}
      then printing (max_consecutive_timeouts s)
      else idle (max_consecutive_timeouts s))"

text \<open>
  \<^verbatim>\<open>_on_comm_timeout(self, line, lower_line)\<close>: the maximum is picked, the counter is
  incremented, then comes the chain
  \<^verbatim>\<open>
  if 0 < consecutive_max < self._internal_flags["timeout_consecutive"]:
      self.process_protocol_log(message)
      self.error = "Too many consecutive timeouts"
      self.disconnect(error=True)
  elif self._internal_flags["resend_requested"] is not None:
      self.notify_listeners("on_protocol_log", ...)
      if self._send_same_from_resend():
          self._clear_to_send.set()
  elif self._internal_flags["heating"]:
      self._finish_heatup()
  elif self._internal_flags["long_running_command"]:
      (log only)
  elif self.state in (ProtocolState.PROCESSING, ProtocolState.PAUSED):
      self.notify_listeners("on_protocol_log_message", ...)
      if self._send_command(GcodeCommand("M105", type="temperature")):
          self._clear_to_send.set()
  elif self._clear_to_send.blocked():
      self.notify_listeners("on_protocol_log_message", ...)
      self._clear_to_send.set()
  \<close>
  and at the end \<open>ok_timeout\<close> is set and
  \<^verbatim>\<open>self.state != ProtocolState.PROCESSING and line == ""\<close> is returned.
\<close>

definition tickle_command :: cmd where
  "tickle_command =
     \<lparr>line = ''M105'', parsed = Gcode ''M105'' Map.empty, ctype = Some ''temperature'',
      tags = {}\<rparr>"

definition on_comm_timeout_chain ::
  "env \<Rightarrow> protocol \<Rightarrow> int \<Rightarrow> (unit, protocol) outcome" where
  "on_comm_timeout_chain ev s cmax =
     (if 0 < cmax \<and> cmax < timeout_consecutive s
      then
        (let s = emit ProtocolLog s;
             s = s\<lparr>error := Some ''Too many consecutive timeouts''\<rparr>
         in Returned () (emit (Disconnect True) s))
      else if resend_requested s \<noteq> None
      then
        (let s = emit (NotifyListeners ''on_protocol_log'') s
         in case send_same_from_resend ev s of
              Raised e s \<Rightarrow> Raised e s
            | Returned r s \<Rightarrow> Returned () (if r then token_set s else s))
      else if heating s then Returned () (finish_heatup ev 0 s)
      else if long_running_command s then Returned () s
      else if state s \<in> {PROCESSING, PAUSED}
      then
        (let s = emit (NotifyListeners ''on_protocol_log_message'') s;
             s = emit (SendCommand tickle_command) s
         in Returned () (if send_command_result ev tickle_command then token_set s else s))
      else if blocked (clear_to_send s)
      then Returned () (token_set (emit (NotifyListeners ''on_protocol_log_message'') s))
      else Returned () s)"

definition on_comm_timeout :: "env \<Rightarrow> protocol \<Rightarrow> string \<Rightarrow> (bool, protocol) outcome" where
  "on_comm_timeout ev s received =
     (let cmax = consecutive_max s;
          s = s\<lparr>timeout_consecutive := timeout_consecutive s + 1\<rparr>
      in case on_comm_timeout_chain ev s cmax of
           Raised e s \<Rightarrow> Raised e s
         | Returned u s \<Rightarrow>
             (let s = s\<lparr>ok_timeout :=
                          Some (get_timeout ev 1 s
                            (if busy_detected s then ''communication_busy''
                             else ''communication''))\<rparr>
              in Returned (state s \<noteq> PROCESSING \<and> received = []) s))"

text \<open>
  \<^verbatim>\<open>
  def _on_comm_ok(self, wait=False):
      if self._internal_flags["ignore_ok"] > 0:
          self._internal_flags["ignore_ok"] -= 1
          if self._internal_flags["ignore_ok"] < 0:
              self._internal_flags["ignore_ok"] = 0
          return
      if self.state == ProtocolState.CONNECTING:
          self.state = ProtocolState.CONNECTED
          return
      if self._resend_ok_timer:
          self._resend_ok_timer.cancel()
          self._resend_ok_timer = None
      self._internal_flags["ok_timeout"] = self._get_timeout(
          "communication_busy" if self._internal_flags["busy_detected"] else "communication")
      self._clear_to_send.set()
      self._internal_flags["long_running_command"] = False
      if self._internal_flags["former_tool"]:
          self._internal_flags["current_tool"] = self._internal_flags["former_tool"]
          self._internal_flags["former_tool"] = None
      self._finish_heatup()
      if self.state not in ProtocolState.OPERATIONAL_STATES:
          return
      if self._internal_flags["resend_requested"] is not None:
          self._send_next_from_resend()
      else:
          self._continue_sending()
  \<close>
  The argument \<open>wait\<close> is used in a log message only.
\<close>

definition on_comm_ok :: "env \<Rightarrow> protocol \<Rightarrow> bool \<Rightarrow> (unit, protocol) outcome" where
  "on_comm_ok ev s wait =
     (if ignore_ok s > 0
      then
        (let s = s\<lparr>ignore_ok := ignore_ok s - 1\<rparr>;
             s = (if ignore_ok s < 0 then s\<lparr>ignore_ok := 0\<rparr> else s)
         in Returned () s)
      else if state s = CONNECTING then Returned () (s\<lparr>state := CONNECTED\<rparr>)
      else
        (let s = (if resend_ok_timer s
                  then (emit CancelResendOkTimer s)\<lparr>resend_ok_timer := False\<rparr> else s);
             s = s\<lparr>ok_timeout :=
                      Some (get_timeout ev 0 s
                        (if busy_detected s then ''communication_busy'' else ''communication''))\<rparr>;
             s = token_set s;
             s = s\<lparr>long_running_command := False\<rparr>;
             s = (case former_tool s of
                    None \<Rightarrow> s
                  | Some t \<Rightarrow>
                      if t \<noteq> 0 then s\<lparr>current_tool := t, former_tool := None\<rparr> else s);
             s = finish_heatup ev 1 s
         in if state s \<notin> OPERATIONAL_STATES then Returned () s
            else if resend_requested s \<noteq> None
            then (case send_next_from_resend ev s False of
                    Raised e s \<Rightarrow> Raised e s
                  | Returned r s \<Rightarrow> Returned () s)
            else Returned () (emit ContinueSending s)))"

text \<open>
  \<^verbatim>\<open>
  def _on_comm_ignore_ok(self):
      self._internal_flags["ignore_ok"] += 1
  \<close>
\<close>

definition on_comm_ignore_ok :: "protocol \<Rightarrow> protocol" where
  "on_comm_ignore_ok s = s\<lparr>ignore_ok := ignore_ok s + 1\<rparr>"

section \<open>The protocol engine: the send loop\<close>

text \<open>
  An entry of the send queue is the tuple \<^verbatim>\<open>(command, linenumber, on_sent, processed)\<close>;
  the command is a \<^verbatim>\<open>SendQueueMarker\<close> or a command, and of \<open>on_sent\<close> the model
  keeps whether there is a callback to call.
\<close>

datatype queue_item = SendQueueMarker | Cmd cmd

record queue_entry =
  entry_command :: queue_item
  entry_linenumber :: "int option"
  entry_on_sent :: bool
  entry_processed :: bool

datatype loop_control = LoopBreak | LoopContinue | LoopWait

text \<open>
  A call of \<^verbatim>\<open>_process_command_phase\<close>: the call is recorded, the environment gives
  the result and the new state; the trace stays the record of the modelled code's own
  calls. The phase handlers, the \<open>on_sent\<close> callback and the transport are taken to
  return: an exception of theirs would end the run of the loop body at that point.
\<close>

definition call_command_phase ::
  "env \<Rightarrow> string \<Rightarrow> cmd \<Rightarrow> protocol \<Rightarrow> cmd list \<times> protocol" where
  "call_command_phase ev phase command s =
     (let (results, s') = process_command_phase ev phase command s
      in (results, s'\<lparr>trace := trace s @ [CommandPhase phase command]\<rparr>))"

text \<open>Python's \<^verbatim>\<open>str.strip()\<close> on ASCII text (whitespace: 9 to 13 and 28 to 32).\<close>

definition py_isspace :: "char \<Rightarrow> bool" where
  "py_isspace c = (let k = (of_char c :: nat) in (9 \<le> k \<and> k \<le> 13) \<or> (28 \<le> k \<and> k \<le> 32))"

definition strip :: "string \<Rightarrow> string" where
  "strip l = rev (dropWhile py_isspace (rev (dropWhile py_isspace l)))"

text \<open>
  The end of the loop body, after the command has been written:
  \<^verbatim>\<open>
  if on_sent is not None and callable(on_sent):
      on_sent()
  self._process_command_phase("sent", command)
  use_up_clear = self.flavor.unknown_requires_ack
  if isinstance(command, GcodeCommand):
      use_up_clear = True
  if use_up_clear:
      self._clear_to_send.clear()
  else:
      self._continue_sending()
  \<close>
\<close>

definition send_loop_sent :: "env \<Rightarrow> protocol \<Rightarrow> cmd \<Rightarrow> queue_entry \<Rightarrow> protocol" where
  "send_loop_sent ev s command e =
     (let s = (if entry_on_sent e then emit OnSent s else s);
          s = snd (call_command_phase ev ''sent'' command s);
          use_up_clear = unknown_requires_ack (flavor s);
          use_up_clear = (if is_gcode command then True else use_up_clear)
      in if use_up_clear then token_clear s else emit ContinueSending s)"

text \<open>
  The branch for an entry without a line number, from the check for an empty line on:
  \<^verbatim>\<open>
  if command.line.strip() == "":
      self._continue_sending()
      continue
  if isinstance(command, AtCommand):
      self._process_command_phase("sending", command)
      self._continue_sending()
      continue
  self._do_send(command)
  \<close>
\<close>

definition send_loop_send ::
  "env \<Rightarrow> protocol \<Rightarrow> cmd \<Rightarrow> queue_entry \<Rightarrow> (loop_control, protocol) outcome" where
  "send_loop_send ev s command e =
     (if strip (line command) = [] then Returned LoopContinue (emit ContinueSending s)
      else if is_atcommand command
      then
        (let s = snd (call_command_phase ev ''sending'' command s)
         in Returned LoopContinue (emit ContinueSending s))
      else
        (case do_send ev s command of
           Raised err s \<Rightarrow> Raised err s
         | Returned u s \<Rightarrow> Returned LoopWait (send_loop_sent ev s command e)))"

text \<open>
  The body of the loop of \<^verbatim>\<open>_send_loop\<close> for an entry fetched from the send queue,
  inside \<^verbatim>\<open>try: ... finally: self._send_queue.task_done()\<close>:
  \<^verbatim>\<open>
  if not self._send_queue_active:
      break
  now = time.monotonic()
  if (self.flavor.block_while_dwelling and self._internal_flags["dwelling_until"]
          and now < self._internal_flags["dwelling_until"]):
      time.sleep(self._internal_flags["dwelling_until"] - now)
      self._internal_flags["dwelling_until"] = False
  command, linenumber, on_sent, processed = entry
  if isinstance(command, SendQueueMarker):
      command.run()
      self._continue_sending()
      continue
  if linenumber is not None:
      self._do_send_with_checksum(to_bytes(command.line), linenumber)
  else:
      if not processed:
          results = self._process_command_phase("sending", command)
          if not results:
              self._continue_sending()
              continue
          assert len(results) == 1
          command = results[0]
      ... (the branch above)
  ... (the end of the loop body above)
  \<close>
\<close>

definition send_loop_body ::
  "env \<Rightarrow> protocol \<Rightarrow> queue_entry \<Rightarrow> (loop_control, protocol) outcome" where
  "send_loop_body ev s e =
     (if \<not> send_queue_active s then Returned LoopBreak s
      else
        (let s = (case dwelling_until s of
                    None \<Rightarrow> s
                  | Some d \<Rightarrow>
                      if block_while_dwelling (flavor s) \<and> d \<noteq> 0 \<and> monotonic ev 0 < d
                      then (emit Sleep s)\<lparr>dwelling_until := None\<rparr>
                      else s)
         in case entry_command e of
              SendQueueMarker \<Rightarrow> Returned LoopContinue (emit ContinueSending (emit RunMarker s))
            | Cmd command \<Rightarrow>
                (case entry_linenumber e of
                   Some linenumber \<Rightarrow>
                     Returned LoopWait
                       (send_loop_sent ev
                          (do_send_with_checksum s (to_bytes ev (line command)) linenumber)
                          command e)
                 | None \<Rightarrow>
                     if \<not> entry_processed e
                     then
                       (let (results, s) = call_command_phase ev ''sending'' command s
                        in case results of
                             [] \<Rightarrow> Returned LoopContinue (emit ContinueSending s)
                           | [command] \<Rightarrow> send_loop_send ev s command e
                           | _ \<Rightarrow> Raised AssertionError s)
                     else send_loop_send ev s command e)))"

definition send_loop_iteration ::
  "env \<Rightarrow> protocol \<Rightarrow> queue_entry \<Rightarrow> (loop_control, protocol) outcome" where
  "send_loop_iteration ev s e =
     (case send_loop_body ev s e of
        Returned c s \<Rightarrow> Returned c (emit TaskDone s)
      | Raised err s \<Rightarrow> Raised err (emit TaskDone s))"

section \<open>The protocol engine: @-commands\<close>

text \<open>
  \<^verbatim>\<open>
  def _atcommand_pause_queuing(self, command):
      tags = command.tags
      if tags is None:
          tags = set()
      if "script:afterPrintPaused" not in tags:
          self.pause_processing(tags={"trigger:atcommand_pause"})
  \<close>
  and likewise for cancel (also bound to abort) and resume. The tags of a command are a
  set here, so the test for \<^verbatim>\<open>None\<close> has no counterpart.
\<close>

definition atcommand_pause_queuing :: "protocol \<Rightarrow> cmd \<Rightarrow> protocol" where
  "atcommand_pause_queuing s command =
     (if ''script:afterPrintPaused'' \<notin> tags command
      then emit (PauseProcessing {''trigger:atcommand_pause''}) s else s)"

definition atcommand_cancel_queuing :: "protocol \<Rightarrow> cmd \<Rightarrow> protocol" where
  "atcommand_cancel_queuing s command =
     (if ''script:afterPrintCancelled'' \<notin> tags command
      then emit (CancelProcessing {''trigger:atcommand_cancel''}) s else s)"

definition atcommand_abort_queuing :: "protocol \<Rightarrow> cmd \<Rightarrow> protocol" where
  "atcommand_abort_queuing = atcommand_cancel_queuing"

definition atcommand_resume_queuing :: "protocol \<Rightarrow> cmd \<Rightarrow> protocol" where
  "atcommand_resume_queuing s command =
     (if ''script:beforePrintResumed'' \<notin> tags command
      then emit (ResumeProcessing {''trigger:atcommand_resume''}) s else s)"

text \<open>
  \<^verbatim>\<open>self._handlers_atcommand\<close>: the methods of the class whose names start with
  \<^verbatim>\<open>_atcommand_\<close>, by name.
\<close>

definition handlers_atcommand :: "string \<rightharpoonup> (protocol \<Rightarrow> cmd \<Rightarrow> protocol)" where
  "handlers_atcommand =
     [''_atcommand_pause_queuing'' \<mapsto> atcommand_pause_queuing,
      ''_atcommand_cancel_queuing'' \<mapsto> atcommand_cancel_queuing,
      ''_atcommand_abort_queuing'' \<mapsto> atcommand_abort_queuing,
      ''_atcommand_resume_queuing'' \<mapsto> atcommand_resume_queuing]"

text \<open>
  \<^verbatim>\<open>self._atcommand_hooks[phase]\<close>: a dictionary is looked up by the phase (KeyError when
  it has no such key); a tuple cannot be indexed by a string and raises TypeError.
\<close>

definition hooks_getitem :: "hook_container \<Rightarrow> string \<Rightarrow> py_error + string list" where
  "hooks_getitem hooks phase =
     (case hooks of
        HooksDict d \<Rightarrow> (case d phase of None \<Rightarrow> Inl KeyError | Some hs \<Rightarrow> Inr hs)
      | HooksTuple ds \<Rightarrow> Inl TypeError)"

text \<open>
  \<^verbatim>\<open>
  def _process_atcommand_phase(self, phase, command):
      if (self._is_streaming()) or phase not in ("queuing", "sending"):
          return
      for name, hook in self._atcommand_hooks[phase].items():
          try:
              hook(self, phase, command.atcommand, command.parameters, tags=command.tags)
          except Exception:
              (log)
      atcommand_handler = "_atcommand_{}_{}".format(command.atcommand, phase)
      if atcommand_handler in self._handlers_atcommand:
          try:
              getattr(self, atcommand_handler)(command)
          except Exception:
              (log)
  \<close>
  The method is called with an \<^verbatim>\<open>AtCommand\<close>; \<open>atcommand\<close> is its name.
\<close>

definition atcommand :: "cmd \<Rightarrow> string" where
  "atcommand c = (case parsed c of At a ps \<Rightarrow> a | _ \<Rightarrow> [])"

definition process_atcommand_phase ::
  "protocol \<Rightarrow> string \<Rightarrow> cmd \<Rightarrow> (unit, protocol) outcome" where
  "process_atcommand_phase s phase command =
     (if is_streaming s \<or> phase \<notin> {''queuing'', ''sending''} then Returned () s
      else
        (case hooks_getitem (atcommand_hooks s) phase of
           Inl err \<Rightarrow> Raised err s
         | Inr hooks \<Rightarrow>
             (let s = fold (\<lambda>name. emit (Hook name)) hooks s;
                  atcommand_handler = ''_atcommand_'' @ atcommand command @ ''_'' @ phase
              in case handlers_atcommand atcommand_handler of
                   None \<Rightarrow> Returned () s
                 | Some handler \<Rightarrow> Returned () (handler s command))))"

section \<open>The protocol engine: the state after construction\<close>

text \<open>
  The attributes as \<^verbatim>\<open>__init__\<close> sets them with the default settings, for a flavor, a
  transport with the given \<open>message_integrity\<close> and the hooks that plugins registered
  for the two @-command phases:
  \<^verbatim>\<open>
  self._atcommand_hooks = (
      {
          "queuing": self._plugin_manager.get_hooks("octoprint.comm.protocol.atcommand.queuing"),
          "sending": self._plugin_manager.get_hooks("octoprint.comm.protocol.atcommand.sending"),
      },
  )
  self._clear_to_send = SendToken(max=10, name="protocol.clear_to_send")
  self._current_linenumber = 1
  self._last_lines = LineHistory(max=50)
  \<close>
  The comma after the closing brace makes \<^verbatim>\<open>_atcommand_hooks\<close> a tuple of one
  dictionary.
\<close>

definition init_protocol :: "flavor \<Rightarrow> bool \<Rightarrow> string list \<Rightarrow> string list \<Rightarrow> protocol" where
  "init_protocol fl integrity queuing_hooks sending_hooks =
     \<lparr>state = DISCONNECTED,
      error = None,
      flavor = fl,
      job = None,
      transport_message_integrity = integrity,
      timeouts = [''connection'' \<mapsto> 30, ''communication'' \<mapsto> 10,
                  ''communication_busy'' \<mapsto> 2],
      max_consecutive_timeouts = \<lparr>idle = 2, printing = 5, long = 5\<rparr>,
      clear_to_send = \<lparr>counter = 0, maximum = Some 10, ignored = 0\<rparr>,
      current_linenumber = Some 1,
      last_lines = \<lparr>max_h = Some 50, lines = [], line_number_lookup = Map.empty\<rparr>,
      last_communication_error = None,
      send_queue_active = False,
      send_queue_resend_active = False,
      resend_ok_timer = False,
      atcommand_hooks =
        HooksTuple [[''queuing'' \<mapsto> queuing_hooks, ''sending'' \<mapsto> sending_hooks]],
      heating_start = None,
      heating_lost = 0,
      heating = False,
      current_tool = 0,
      former_tool = Some 0,
      resend_requested = None,
      resend_linenumber = None,
      resend_count = None,
      long_running_command = False,
      ignore_ok = 0,
      timeout_consecutive = 0,
      ok_timeout = None,
      dwelling_until = None,
      firmware_identified = False,
      busy_detected = False,
      trace = []\<rparr>"

text \<open>A flavor and an environment for the examples.\<close>

definition sample_flavor :: flavor where
  "sample_flavor =
     \<lparr>send_checksum = ''printing'', unknown_requires_ack = False,
      unknown_with_checksum = False, checksum_requiring_commands = {''M110''},
      block_while_dwelling = False\<rparr>"

definition sample_env :: env where
  "sample_env =
     \<lparr>monotonic = (\<lambda>k. 0), to_unicode = (\<lambda>b. b), to_bytes = (\<lambda>l. l),
      command_bytes = line, parse_line = (\<lambda>l. Text),
      send_queue_accepts = (\<lambda>c. True), send_command_result = (\<lambda>c. True),
      process_command_phase = (\<lambda>phase c s. ([c], s))\<rparr>"

text \<open>
  The actions that the end of the loop body records for a command \<open>c\<close>, given the flavor
  that is in place after the sent phase.
\<close>

definition sent_actions :: "cmd \<Rightarrow> queue_entry \<Rightarrow> flavor \<Rightarrow> action list" where
  "sent_actions c e fl =
     (if entry_on_sent e then [OnSent] else [])
       @ [CommandPhase ''sent'' c,
          if is_gcode c \<or> unknown_requires_ack fl then TokenClear False else ContinueSending]"


section \<open>Example states and commands\<close>

text \<open>
  A state in the middle of a resend window (the printer asked for line 5 again, line 6
  is the next to resend, line 8 the next new one), the command \<^verbatim>\<open>M110 N<k>\<close>, the
  command \<^verbatim>\<open>@pause\<close>, a state of the send loop while printing, and two commands with
  their entry in the send queue.
\<close>

definition resend_example :: protocol where
  "resend_example =
     (init_protocol sample_flavor False [] [])
       \<lparr>state := PROCESSING,
        current_linenumber := Some 8,
        last_lines :=
          \<lparr>max_h = Some 50,
           lines = [(''G1 X0'', Some 5), (''G1 X1'', Some 6), (''G1 X2'', Some 7)],
           line_number_lookup = [5 \<mapsto> ''G1 X0'', 6 \<mapsto> ''G1 X1'', 7 \<mapsto> ''G1 X2'']\<rparr>,
        send_queue_resend_active := True,
        resend_requested := Some 5,
        resend_linenumber := Some 6,
        resend_count := Some 0\<rparr>"

definition m110_command :: "int \<Rightarrow> cmd" where
  "m110_command k =
     \<lparr>line = ''M110 N'' @ str_int k, parsed = Gcode ''M110'' [''n'' \<mapsto> IntV k],
      ctype = None, tags = {}\<rparr>"

definition pause_command :: cmd where
  "pause_command = \<lparr>line = ''@pause'', parsed = At ''pause'' [], ctype = None, tags = {}\<rparr>"

definition sending_example :: protocol where
  "sending_example =
     (init_protocol sample_flavor False [] [])
       \<lparr>state := PROCESSING, send_queue_active := True,
        clear_to_send := \<lparr>counter = 1, maximum = Some 10, ignored = 0\<rparr>\<rparr>"


definition text_command :: cmd where
  "text_command = \<lparr>line = ''hello'', parsed = Text, ctype = None, tags = {}\<rparr>"

definition fresh_entry :: "cmd \<Rightarrow> queue_entry" where
  "fresh_entry c =
     \<lparr>entry_command = Cmd c, entry_linenumber = None, entry_on_sent = False,
      entry_processed = False\<rparr>"

section \<open>Results\<close>

subsection \<open>TemperatureRecord: partial updates\<close>

lemma to_new_tuple_actual_only: "snd (to_new_tuple (Some c) actual None) = snd c"
  by (simp add: to_new_tuple_def Let_def)

lemma to_new_tuple_target_only: "fst (to_new_tuple (Some c) None target) = fst c"
  by (simp add: to_new_tuple_def Let_def)

text \<open>
  C9. For every tool slot, the bed and the chamber of a temperature record, the setter
  called with an actual value only (target \<^verbatim>\<open>None\<close>) leaves the stored target as it
  was, and called with a target only (actual \<^verbatim>\<open>None\<close>) leaves the stored actual as it
  was. A tool slot that has no entry yet counts as \<^verbatim>\<open>(None, None)\<close>, as
  \<^verbatim>\<open>self._tools.get(tool, (None, None))\<close> reads it.
\<close>

theorem temperature_setters_partial_update:
  "snd (tools_get (set_tool r tool actual None) tool) = snd (tools_get r tool)
   \<and> fst (tools_get (set_tool r tool None target) tool) = fst (tools_get r tool)
   \<and> snd (bed (set_bed r actual None)) = snd (bed r)
   \<and> fst (bed (set_bed r None target)) = fst (bed r)
   \<and> snd (chamber (set_chamber r actual None)) = snd (chamber r)
   \<and> fst (chamber (set_chamber r None target)) = fst (chamber r)"
  by (simp add: set_tool_def set_bed_def set_chamber_def tools_get_def Let_def
      to_new_tuple_actual_only to_new_tuple_target_only)

subsection \<open>SendToken.clear\<close>

lemma internal_set_in_range:
  "0 \<le> v \<Longrightarrow> (case maximum t of None \<Rightarrow> True | Some m \<Rightarrow> v \<le> m) \<Longrightarrow>
   internal_set t v = t\<lparr>counter := v\<rparr>"
  by (cases "maximum t") (simp_all add: internal_set_def)

lemma internal_set_below: "v \<le> 0 \<Longrightarrow> internal_set t v = t\<lparr>counter := 0\<rparr>"
  by (cases "maximum t") (simp_all add: internal_set_def)

text \<open>
  C2, as the code has it. For a send token whose counter lies between 0 and its
  maximum, \<^verbatim>\<open>clear()\<close> without \<^verbatim>\<open>completely\<close> does this: with \<open>ignored > 0\<close> it takes
  one off \<open>ignored\<close> and decrements the counter twice, stopping at 0 (the counter
  becomes \<open>max 0 (counter - 2)\<close>); with no ignore pending it sets the counter to
  \<open>max 0 (counter - 1)\<close> and leaves \<open>ignored\<close> alone.
\<close>

theorem clear_token_effect:
  assumes "token_in_range t"
  shows "clear_token t False =
           (if ignored t > 0
            then t\<lparr>counter := max 0 (counter t - 2), ignored := ignored t - 1\<rparr>
            else t\<lparr>counter := max 0 (counter t - 1)\<rparr>)"
proof (cases "maximum t")
  case None
  then show ?thesis
    using assms by (simp add: clear_token_def internal_set_def token_in_range_def Let_def)
next
  case (Some m)
  then have "counter t \<le> m" and "0 \<le> counter t"
    using assms by (simp_all add: token_in_range_def)
  then show ?thesis
    using Some by (simp add: clear_token_def internal_set_def Let_def min_def max_def)
qed

theorem clear_token_effect_witness:
  "token_in_range \<lparr>counter = 5, maximum = Some 10, ignored = 1\<rparr>
   \<and> clear_token \<lparr>counter = 5, maximum = Some 10, ignored = 1\<rparr> False
       = \<lparr>counter = 3, maximum = Some 10, ignored = 0\<rparr>"
proof -
  have h: "token_in_range \<lparr>counter = 5, maximum = Some 10, ignored = 1\<rparr>"
    by (simp add: token_in_range_def)
  show ?thesis
    using h clear_token_effect [OF h] by simp
qed

text \<open>
  The claim as worded (one decrement of the counter when an ignore is pending) fails on a
  token with counter 5 and one ignore: the counter ends at 3, not at 4.
\<close>

theorem clear_token_once_counterexample:
  "ignored \<lparr>counter = 5, maximum = Some 10, ignored = 1\<rparr> > 0
   \<and> counter (clear_token \<lparr>counter = 5, maximum = Some 10, ignored = 1\<rparr> False)
       \<noteq> counter \<lparr>counter = 5, maximum = Some 10, ignored = 1\<rparr> - 1"
  by (simp add: clear_token_def internal_set_def Let_def)

subsection \<open>normalize_command_handler_result: tags of the results\<close>









subsection \<open>Numbered lines and their checksum\<close>

lemma checksum_loop_xor: "checksum_loop cs acc = acc XOR xor_bytes cs"
  by (induction cs arbitrary: acc) (simp_all add: xor.assoc)

lemma xor_bytes_range: "0 \<le> xor_bytes cs \<and> xor_bytes cs < 256"
proof (induction cs)
  case Nil
  then show ?case by simp
next
  case (Cons c cs)
  have c: "0 \<le> (of_char c :: int)" "(of_char c :: int) < 2 ^ 8"
    by (simp_all add: of_char_def)
  from Cons have x: "0 \<le> xor_bytes cs" "xor_bytes cs < 2 ^ 8" by simp_all
  have "of_char c XOR xor_bytes cs < (2 :: int) ^ 8"
    using c x by (intro XOR_upper) simp_all
  moreover have "0 \<le> of_char c XOR xor_bytes cs"
    using c x by simp
  ultimately show ?case by simp
qed

lemma decimal_value_append: "decimal_value (xs @ ys) acc = decimal_value ys (decimal_value xs acc)"
  by (induction xs arbitrary: acc) simp_all

lemma digit_char_value: "d < 10 \<Longrightarrow> (of_char (digit_char d) :: nat) = 48 + d"
  by (simp add: digit_char_def)

lemma str_nat_value: "decimal_value (str_nat n) 0 = n"
proof (induction n rule: str_nat.induct)
  case (1 n)
  show ?case
  proof (cases "n < 10")
    case True
    then show ?thesis by (subst str_nat.simps) (simp add: digit_char_value)
  next
    case False
    with 1 have "decimal_value (str_nat (n div 10)) 0 = n div 10" by simp
    then show ?thesis
      using False by (subst str_nat.simps) (simp add: decimal_value_append digit_char_value)
  qed
qed

lemma numbered_line_example: "numbered_line 1 ''G28'' = ''N1 G28*18''"
  by code_simp

text \<open>
  C5. For every payload and line number, \<^verbatim>\<open>_do_send_with_checksum\<close> writes exactly one
  line to the transport: \<^verbatim>\<open>N<linenumber> <payload>*<xor>\<close> followed by a newline, where
  \<^verbatim>\<open><xor>\<close> is the XOR over every byte of \<^verbatim>\<open>N<linenumber> <payload>\<close> as a decimal
  number (\<open>str_nat_value\<close>: the digits read back give the number; \<open>xor_bytes_range\<close>:
  it is a byte).
\<close>

theorem numbered_line_written:
  "new_actions s (do_send_with_checksum s payload line_number)
     = [TransportWrite (numbered_line line_number payload @ [CHR 0x0A])]"
  by (simp add: do_send_with_checksum_def do_send_without_checksum_def new_actions_def emit_def
      numbered_line_def checksum_loop_xor Let_def)


subsection \<open>The numbered-line path: line history and line number\<close>

lemma cleanup_while_no_error: "0 \<le> m \<Longrightarrow> fst (cleanup_while m ls lk) = None"
  by (induction m ls lk rule: cleanup_while.induct) auto

lemma cleanup_while_last:
  "1 \<le> m \<Longrightarrow> ls \<noteq> [] \<Longrightarrow>
   fst (snd (cleanup_while m ls lk)) \<noteq> [] \<and> last (fst (snd (cleanup_while m ls lk))) = last ls"
proof (induction m ls lk rule: cleanup_while.induct)
  case (1 m lk)
  then show ?case by simp
next
  case (2 m e es lk)
  show ?case
  proof (cases "int (length (e # es)) > m")
    case True
    with 2(2) have "es \<noteq> []" by auto
    with 2 True show ?thesis by simp
  next
    case False
    then show ?thesis by simp
  qed
qed

lemma cleanup_while_lookup:
  "1 \<le> m \<Longrightarrow> ls \<noteq> [] \<Longrightarrow> \<forall>e \<in> set (butlast ls). snd e \<noteq> Some n \<Longrightarrow>
   snd (snd (cleanup_while m ls lk)) n = lk n"
proof (induction m ls lk rule: cleanup_while.induct)
  case (1 m lk)
  then show ?case by simp
next
  case (2 m e es lk)
  show ?case
  proof (cases "int (length (e # es)) > m")
    case True
    with 2(2) have ne: "es \<noteq> []" by auto
    with 2(4) have e: "snd e \<noteq> Some n" and es: "\<forall>e \<in> set (butlast es). snd e \<noteq> Some n"
      by simp_all
    let ?lk = "case snd e of None \<Rightarrow> lk | Some k \<Rightarrow> lk(k := None)"
    have "snd (snd (cleanup_while m es ?lk)) n = ?lk n"
      by (rule 2(1) [OF True 2(2) ne es])
    moreover have "?lk n = lk n"
      using e by (cases "snd e") simp_all
    ultimately show ?thesis
      using True by simp
  next
    case False
    then show ?thesis by simp
  qed
qed

lemma append_h_ok:
  assumes "max_h h = Some m" "1 \<le> m" "\<forall>e \<in> set (lines h). snd e \<noteq> Some n"
  shows "\<exists>h'. append_h h l (Some n) = Returned () h'
          \<and> max_h h' = Some m
          \<and> lines h' \<noteq> [] \<and> last (lines h') = (l, Some n)
          \<and> line_number_lookup h' n = Some l"
proof -
  let ?ls = "lines h @ [(l, Some n)]"
  let ?lk = "(line_number_lookup h)(n \<mapsto> l)"
  obtain e ls' lk' where cw: "cleanup_while m ?ls ?lk = (e, ls', lk')"
    by (cases "cleanup_while m ?ls ?lk") auto
  have "e = None"
    using cleanup_while_no_error [of m ?ls ?lk] assms(2) cw by simp
  moreover have "ls' \<noteq> [] \<and> last ls' = (l, Some n)"
    using cleanup_while_last [of m ?ls ?lk] assms(2) cw by simp
  moreover have "lk' n = Some l"
    using cleanup_while_lookup [of m ?ls n ?lk] assms(2,3) cw by simp
  ultimately show ?thesis
    using assms(1) cw by (simp add: append_h_def cleanup_def)
qed

text \<open>
  C1. A send on the numbered-line path (\<^verbatim>\<open>_do_increment_and_send_with_checksum\<close>), in a
  state whose line number is \<open>n\<close> and whose line history has room for at least one line
  and holds no line under \<open>n\<close> yet, returns; it appends the text of the line to the
  history under \<open>n\<close> (it is the last entry and the lookup by \<open>n\<close> finds it), makes the
  line number \<open>n + 1\<close>, and writes the line numbered \<open>n\<close> to the transport. The whole
  is one step, as the code runs it under the line mutex.
\<close>

theorem numbered_send_appends_and_increments:
  assumes "current_linenumber s = Some n"
    and "max_h (last_lines s) = Some m" and "1 \<le> m"
    and "\<forall>e \<in> set (lines (last_lines s)). snd e \<noteq> Some n"
  shows "\<exists>s'. do_increment_and_send_with_checksum ev s payload = Returned () s'
          \<and> current_linenumber s' = Some (n + 1)
          \<and> lines (last_lines s') \<noteq> []
          \<and> last (lines (last_lines s')) = (to_unicode ev payload, Some n)
          \<and> getitem_h (last_lines s') (Some n) = Some (to_unicode ev payload)
          \<and> new_actions s s' = [TransportWrite (numbered_line n payload @ [CHR 0x0A])]"
proof -
  from append_h_ok [OF assms(2,3,4), of "to_unicode ev payload"]
  obtain h' where h': "append_h (last_lines s) (to_unicode ev payload) (Some n) = Returned () h'"
    "lines h' \<noteq> []" "last (lines h') = (to_unicode ev payload, Some n)"
    "line_number_lookup h' n = Some (to_unicode ev payload)"
    by blast
  show ?thesis
    using assms(1) h'
    by (simp add: do_increment_and_send_with_checksum_def add_to_last_lines_def
        do_send_with_checksum_def do_send_without_checksum_def emit_def new_actions_def
        getitem_h_def numbered_line_def checksum_loop_xor Let_def)
qed


theorem numbered_send_witness:
  "current_linenumber (init_protocol sample_flavor False [] []) = Some 1
   \<and> max_h (last_lines (init_protocol sample_flavor False [] [])) = Some 50
   \<and> lines (last_lines (init_protocol sample_flavor False [] [])) = []
   \<and> (\<exists>s'. do_increment_and_send_with_checksum sample_env
               (init_protocol sample_flavor False [] []) ''G28'' = Returned () s'
          \<and> current_linenumber s' = Some 2
          \<and> lines (last_lines s') = [(''G28'', Some 1)]
          \<and> getitem_h (last_lines s') (Some 1) = Some ''G28''
          \<and> trace s' = [TransportWrite (''N1 G28*18'' @ [CHR 0x0A])])"
proof -
  let ?s = "init_protocol sample_flavor False [] []"
  have nl: "numbered_line 1 ''G28'' = ''N1 G28*18''"
    by code_simp
  have h1: "current_linenumber ?s = Some 1" by (simp add: init_protocol_def)
  have h2: "max_h (last_lines ?s) = Some 50" by (simp add: init_protocol_def)
  have h3: "\<forall>e \<in> set (lines (last_lines ?s)). snd e \<noteq> Some 1" by (simp add: init_protocol_def)
  have h4: "lines (last_lines ?s) = []" by (simp add: init_protocol_def)
  from numbered_send_appends_and_increments [OF h1 h2 _ h3, of sample_env "''G28''"]
  obtain s' where s': "do_increment_and_send_with_checksum sample_env ?s ''G28'' = Returned () s'"
    "current_linenumber s' = Some 2"
    "getitem_h (last_lines s') (Some 1) = Some (to_unicode sample_env ''G28'')"
    "new_actions ?s s' = [TransportWrite (numbered_line 1 ''G28'' @ [CHR 0x0A])]"
    by auto
  have "lines (last_lines s') = [(''G28'', Some 1)]"
    using s'(1) 
    by (auto simp add: do_increment_and_send_with_checksum_def add_to_last_lines_def append_h_def
        cleanup_def init_protocol_def do_send_with_checksum_def do_send_without_checksum_def
        emit_def sample_env_def Let_def)
  moreover have "trace s' = [TransportWrite (''N1 G28*18'' @ [CHR 0x0A])]"
    using s'(4) nl by (simp add: new_actions_def init_protocol_def)
  ultimately show ?thesis
    using h1 h2 h4 s' by (simp add: sample_env_def)
qed


text \<open>The hypotheses of the theorem hold along the runs of the engine.\<close>

lemma history_below_fresh:
  "history_below h n \<Longrightarrow> \<forall>e \<in> set (lines h). snd e \<noteq> Some n"
  by (auto simp: history_below_def list_all_iff)

lemma history_below_init: "history_below (last_lines (init_protocol fl integrity qh sh)) 1"
  by (simp add: history_below_def init_protocol_def)

lemma history_below_M110: "history_below (last_lines (gcode_M110_sending s c)) k"
  by (simp add: history_below_def gcode_M110_sending_def clear_h_def Let_def)

lemma cleanup_while_subset: "set (fst (snd (cleanup_while m ls lk))) \<subseteq> set ls"
  by (induction m ls lk rule: cleanup_while.induct) auto

lemma history_below_append:
  assumes "history_below h n" "append_h h l (Some n) = Returned () h'"
  shows "history_below h' (n + 1)"
proof -
  let ?h = "h\<lparr>lines := lines h @ [(l, Some n)],
               line_number_lookup := (line_number_lookup h)(n \<mapsto> l)\<rparr>"
  have all: "list_all (\<lambda>e. case snd e of None \<Rightarrow> True | Some k \<Rightarrow> k < n + 1) (lines ?h)"
    using assms(1) by (auto simp: history_below_def list_all_iff split: option.splits)
  have c: "cleanup ?h = Returned () h'"
    using assms(2) by (simp add: append_h_def)
  then obtain m where m: "max_h h = Some m"
    by (cases "max_h h") (simp_all add: cleanup_def)
  have "set (lines h') \<subseteq> set (lines ?h)"
  proof (cases "int (length (lines ?h)) \<le> m")
    case True
    then show ?thesis using c m by (simp add: cleanup_def)
  next
    case False
    obtain err ls lk where cw: "cleanup_while m (lines ?h) (line_number_lookup ?h) = (err, ls, lk)"
      by (cases "cleanup_while m (lines ?h) (line_number_lookup ?h)") auto
    then have "set ls \<subseteq> set (lines ?h)"
      using cleanup_while_subset [of m "lines ?h" "line_number_lookup ?h"] by simp
    moreover have "lines h' = ls"
      using c m False cw by (cases err) (auto simp: cleanup_def)
    ultimately show ?thesis by simp
  qed
  then show ?thesis
    using all by (auto simp: history_below_def list_all_iff)
qed

lemma history_below_send:
  assumes "current_linenumber s = Some n" "history_below (last_lines s) n"
    and "do_increment_and_send_with_checksum ev s payload = Returned () s'"
  shows "current_linenumber s' = Some (n + 1) \<and> history_below (last_lines s') (n + 1)"
proof (cases "append_h (last_lines s) (to_unicode ev payload) (Some n)")
  case (Returned u h')
  then have "history_below h' (n + 1)"
    using history_below_append [OF assms(2)] by simp
  then show ?thesis
    using assms(1,3) Returned
    by (auto simp: do_increment_and_send_with_checksum_def add_to_last_lines_def
        do_send_with_checksum_def do_send_without_checksum_def emit_def Let_def)
next
  case (Raised err h')
  then show ?thesis
    using assms(1,3)
    by (simp add: do_increment_and_send_with_checksum_def add_to_last_lines_def Let_def)
qed

subsection \<open>Timeouts\<close>

lemma trace_token_set [simp]: "trace (token_set s) = trace s @ [TokenSet False]"
  by (simp add: token_set_def emit_def)

lemma trace_token_clear [simp]: "trace (token_clear s) = trace s @ [TokenClear False]"
  by (simp add: token_clear_def emit_def)

lemma trace_emit [simp]: "trace (emit a s) = trace s @ [a]"
  by (simp add: emit_def)

lemma timeout_consecutive_emit [simp]: "timeout_consecutive (emit a s) = timeout_consecutive s"
  by (simp add: emit_def)

lemma timeout_consecutive_token_set [simp]:
  "timeout_consecutive (token_set s) = timeout_consecutive s"
  by (simp add: token_set_def)

lemma finish_heatup_frame [simp]:
  "trace (finish_heatup ev k s) = trace s"
  "timeout_consecutive (finish_heatup ev k s) = timeout_consecutive s"
  by (simp_all add: finish_heatup_def Let_def split: option.splits)

lemma send_next_from_resend_frame:
  "timeout_consecutive (outcome_state (send_next_from_resend ev s again)) = timeout_consecutive s
   \<and> (\<exists>as. trace (outcome_state (send_next_from_resend ev s again)) = trace s @ as
            \<and> Disconnect True \<notin> set as)"
  by (simp add: send_next_from_resend_def outcome_state_def Let_def split: option.splits)

lemma on_comm_timeout_chain_frame:
  "timeout_consecutive (outcome_state (on_comm_timeout_chain ev s cmax)) = timeout_consecutive s
   \<and> (\<exists>as. trace (outcome_state (on_comm_timeout_chain ev s cmax)) = trace s @ as
            \<and> (Disconnect True \<in> set as \<longleftrightarrow> 0 < cmax \<and> cmax < timeout_consecutive s))"
proof -
  obtain as where as:
    "timeout_consecutive (outcome_state (send_next_from_resend ev
        (emit (NotifyListeners ''on_protocol_log'') s) True)) = timeout_consecutive s"
    "trace (outcome_state (send_next_from_resend ev
        (emit (NotifyListeners ''on_protocol_log'') s) True))
       = (trace s @ [NotifyListeners ''on_protocol_log'']) @ as"
    "Disconnect True \<notin> set as"
    using send_next_from_resend_frame [of ev "emit (NotifyListeners ''on_protocol_log'') s" True]
    by auto
  show ?thesis
    using as
    by (cases "send_next_from_resend ev (emit (NotifyListeners ''on_protocol_log'') s) True")
      (auto simp: on_comm_timeout_chain_def send_same_from_resend_def outcome_state_def Let_def)
qed

text \<open>
  C3. On every communication timeout the counter of consecutive timeouts is incremented,
  and the engine disconnects with an error exactly when the maximum that applies (the
  one for long running commands when \<open>long_running_command\<close> is set, else the one for
  printing when the state is \<open>PROCESSING\<close>, \<open>PAUSING\<close> or \<open>CANCELLING\<close>, else the one
  for idle) is greater than 0 and less than the incremented counter. So a maximum of 0
  never disconnects, however many timeouts follow each other
  (\<open>no_disconnect_when_disabled\<close>).
\<close>

theorem on_comm_timeout_disconnects:
  "timeout_consecutive (outcome_state (on_comm_timeout ev s received)) = timeout_consecutive s + 1
   \<and> (Disconnect True \<in> set (new_actions s (outcome_state (on_comm_timeout ev s received)))
        \<longleftrightarrow> 0 < (if long_running_command s then long (max_consecutive_timeouts s)
                   else if state s = PROCESSING \<or> state s = PAUSING \<or> state s = CANCELLING
                   then printing (max_consecutive_timeouts s)
                   else idle (max_consecutive_timeouts s))
            \<and> (if long_running_command s then long (max_consecutive_timeouts s)
                else if state s = PROCESSING \<or> state s = PAUSING \<or> state s = CANCELLING
                then printing (max_consecutive_timeouts s)
                else idle (max_consecutive_timeouts s)) < timeout_consecutive s + 1)"
proof -
  let ?s1 = "s\<lparr>timeout_consecutive := timeout_consecutive s + 1\<rparr>"
  let ?c = "consecutive_max s"
  have c: "?c = (if long_running_command s then long (max_consecutive_timeouts s)
                 else if state s = PROCESSING \<or> state s = PAUSING \<or> state s = CANCELLING
                 then printing (max_consecutive_timeouts s)
                 else idle (max_consecutive_timeouts s))"
    by (simp add: consecutive_max_def)
  obtain as where as:
    "timeout_consecutive (outcome_state (on_comm_timeout_chain ev ?s1 ?c)) = timeout_consecutive s + 1"
    "trace (outcome_state (on_comm_timeout_chain ev ?s1 ?c)) = trace s @ as"
    "Disconnect True \<in> set as \<longleftrightarrow> 0 < ?c \<and> ?c < timeout_consecutive s + 1"
    using on_comm_timeout_chain_frame [of ev ?s1 ?c] by auto
  have "timeout_consecutive (outcome_state (on_comm_timeout ev s received)) = timeout_consecutive s + 1
        \<and> new_actions s (outcome_state (on_comm_timeout ev s received)) = as"
    using as(1,2)
    by (cases "on_comm_timeout_chain ev ?s1 ?c")
      (simp_all add: on_comm_timeout_def outcome_state_def new_actions_def Let_def)
  then show ?thesis
    using as(3) unfolding c by simp
qed

lemma no_disconnect_when_disabled:
  "consecutive_max s = 0 \<Longrightarrow>
   Disconnect True \<notin> set (new_actions s (outcome_state (on_comm_timeout ev s received)))"
proof -
  let ?s1 = "s\<lparr>timeout_consecutive := timeout_consecutive s + 1\<rparr>"
  assume z: "consecutive_max s = 0"
  obtain as where as:
    "trace (outcome_state (on_comm_timeout_chain ev ?s1 0)) = trace s @ as"
    "Disconnect True \<notin> set as"
    using on_comm_timeout_chain_frame [of ev ?s1 0] by auto
  have "new_actions s (outcome_state (on_comm_timeout ev s received)) = as"
    using as(1) z
    by (cases "on_comm_timeout_chain ev ?s1 0")
      (simp_all add: on_comm_timeout_def outcome_state_def new_actions_def Let_def)
  then show ?thesis using as(2) by simp
qed

lemma on_comm_timeout_example:
  "Disconnect True \<in> set (new_actions ((init_protocol sample_flavor False [] [])\<lparr>timeout_consecutive := 2\<rparr>)
      (outcome_state (on_comm_timeout sample_env
         ((init_protocol sample_flavor False [] [])\<lparr>timeout_consecutive := 2\<rparr>) [])))"
  by (simp add: on_comm_timeout_def on_comm_timeout_chain_def consecutive_max_def
      init_protocol_def outcome_state_def new_actions_def emit_def Let_def)

subsection \<open>Ignored acknowledgements\<close>

text \<open>
  C10. When the ok handler runs with \<open>ignore_ok\<close> greater than 0, it returns with a
  state that differs from the one before in \<open>ignore_ok\<close> only, which is one less (and
  not below 0): the send token is not set, the protocol state stays, no resend line or
  other command is sent (the trace stays), and the flags for long running commands, the
  former tool and the heatup stay.
\<close>

theorem on_comm_ok_ignored:
  assumes "ignore_ok s > 0"
  shows "on_comm_ok ev s wait = Returned () (s\<lparr>ignore_ok := max 0 (ignore_ok s - 1)\<rparr>)"
  using assms by (simp add: on_comm_ok_def Let_def max_def)

theorem on_comm_ok_ignored_witness:
  "ignore_ok ((init_protocol sample_flavor False [] [])\<lparr>ignore_ok := 2\<rparr>) > 0
   \<and> on_comm_ok sample_env ((init_protocol sample_flavor False [] [])\<lparr>ignore_ok := 2\<rparr>) False
       = Returned () ((init_protocol sample_flavor False [] [])\<lparr>ignore_ok := 1\<rparr>)"
proof -
  have h: "ignore_ok ((init_protocol sample_flavor False [] [])\<lparr>ignore_ok := 2\<rparr>) > 0"
    by simp
  show ?thesis
    using h on_comm_ok_ignored [OF h, of sample_env False] by simp
qed

text \<open>An \<^verbatim>\<open>ok\<close> that follows \<^verbatim>\<open>_on_comm_ignore_ok\<close> is used up by it.\<close>

lemma ignore_ok_then_ok:
  "0 \<le> ignore_ok s \<Longrightarrow> on_comm_ok ev (on_comm_ignore_ok s) w = Returned () s"
  by (simp add: on_comm_ok_def on_comm_ignore_ok_def Let_def)

subsection \<open>M110 and the resend window\<close>

lemma gcode_M110_sending_sets_line_number:
  "current_linenumber (gcode_M110_sending s (m110_command k)) = Some k
   \<and> lines (last_lines (gcode_M110_sending s (m110_command k))) = []
   \<and> line_number_lookup (last_lines (gcode_M110_sending s (m110_command k))) = Map.empty
   \<and> resend_linenumber (gcode_M110_sending s (m110_command k)) = None"
  by (simp add: gcode_M110_sending_def m110_command_def param_def truthy_def py_int_def
      clear_h_def Let_def)

text \<open>
  C4, on the code. In a state with an active resend window, \<^verbatim>\<open>M110 N3\<close> passing the
  sending phase sets the line number to 3, empties the line history and sets
  \<open>resend_linenumber\<close> to \<^verbatim>\<open>None\<close>, but \<open>resend_requested\<close> and the \<open>resend_active\<close>
  flag of the send queue stay set: the resend window is still active. The next \<^verbatim>\<open>ok\<close>
  then finds no line to resend and does not continue sending either
  (\<open>ok_after_M110_in_resend_window\<close>).
\<close>

theorem gcode_M110_sending_keeps_resend_window:
  "resend_window_active resend_example
   \<and> current_linenumber (gcode_M110_sending resend_example (m110_command 3)) = Some 3
   \<and> lines (last_lines (gcode_M110_sending resend_example (m110_command 3))) = []
   \<and> resend_linenumber (gcode_M110_sending resend_example (m110_command 3)) = None
   \<and> resend_requested (gcode_M110_sending resend_example (m110_command 3)) = Some 5
   \<and> send_queue_resend_active (gcode_M110_sending resend_example (m110_command 3))
   \<and> resend_window_active (gcode_M110_sending resend_example (m110_command 3))"
  by (simp add: gcode_M110_sending_def m110_command_def param_def truthy_def py_int_def
      clear_h_def resend_example_def init_protocol_def resend_window_active_def Let_def)

lemma ok_after_M110_in_resend_window:
  "\<exists>s'. on_comm_ok sample_env (gcode_M110_sending resend_example (m110_command 3)) False
          = Returned () s'
        \<and> resend_requested s' = Some 5
        \<and> trace s' = [TokenSet False]"
  by (simp add: on_comm_ok_def gcode_M110_sending_def m110_command_def param_def truthy_def
      py_int_def clear_h_def resend_example_def init_protocol_def Let_def
      OPERATIONAL_STATES_def finish_heatup_def send_next_from_resend_def getitem_h_def
      token_set_def emit_def)

subsection \<open>@-commands in the queuing phase\<close>

lemma process_atcommand_phase_tuple:
  "\<not> is_streaming s \<Longrightarrow> phase \<in> {''queuing'', ''sending''} \<Longrightarrow>
   atcommand_hooks s = HooksTuple ds \<Longrightarrow>
   process_atcommand_phase s phase command = Raised TypeError s"
  by (simp add: process_atcommand_phase_def hooks_getitem_def)

lemma process_atcommand_phase_dict_pause:
  "\<not> is_streaming s \<Longrightarrow> atcommand_hooks s = HooksDict [''queuing'' \<mapsto> [], ''sending'' \<mapsto> []] \<Longrightarrow>
   process_atcommand_phase s ''queuing'' pause_command
     = Returned () (emit (PauseProcessing {''trigger:atcommand_pause''}) s)"
  by (simp add: process_atcommand_phase_def hooks_getitem_def pause_command_def atcommand_def
      handlers_atcommand_def atcommand_pause_queuing_def)


text \<open>
  C7, on the code. For \<^verbatim>\<open>@pause\<close> in the queuing phase, with tags that do not hold
  \<^verbatim>\<open>script:afterPrintPaused\<close> and no streaming job, \<^verbatim>\<open>_process_atcommand_phase\<close> raises
  TypeError at \<^verbatim>\<open>self._atcommand_hooks[phase]\<close>, since \<^verbatim>\<open>__init__\<close> makes
  \<^verbatim>\<open>_atcommand_hooks\<close> a tuple; the handler \<^verbatim>\<open>_atcommand_pause_queuing\<close> is not reached
  and \<^verbatim>\<open>pause_processing\<close> is not called. The same holds for every @-command, phase and
  state with such a tuple (\<open>process_atcommand_phase_tuple\<close>); with a dictionary in its
  place the pause is triggered (\<open>process_atcommand_phase_dict_pause\<close>).
\<close>

theorem atcommand_pause_raises:
  "''script:afterPrintPaused'' \<notin> tags pause_command
   \<and> \<not> is_streaming (init_protocol sample_flavor False [] [])
   \<and> process_atcommand_phase (init_protocol sample_flavor False [] []) ''queuing'' pause_command
       = Raised TypeError (init_protocol sample_flavor False [] [])
   \<and> PauseProcessing {''trigger:atcommand_pause''}
       \<notin> set (trace (init_protocol sample_flavor False [] []))"
  by (simp add: process_atcommand_phase_def hooks_getitem_def init_protocol_def pause_command_def
      is_streaming_def is_busy_def)

subsection \<open>The send loop: using up a clear\<close>

lemma flavor_emit [simp]: "flavor (emit a s) = flavor s"
  by (simp add: emit_def)

lemma flavor_token_clear [simp]: "flavor (token_clear s) = flavor s"
  by (simp add: token_clear_def)







lemma sent_actions_no_write [simp]: "TransportWrite d \<notin> set (sent_actions c e fl)"
  by (simp add: sent_actions_def)





lemma send_loop_iteration_text_example:
  "new_actions sending_example
     (outcome_state (send_loop_iteration sample_env sending_example (fresh_entry text_command)))
   = [CommandPhase ''sending'' text_command, TransportWrite (''hello'' @ [CHR 0x0A]),
      CommandPhase ''sent'' text_command, ContinueSending, TaskDone]"
proof -
  have strip: "strip ''hello'' \<noteq> []"
    by (simp add: strip_def py_isspace_def)
  show ?thesis
    using strip
    by (simp add: send_loop_iteration_def send_loop_body_def send_loop_send_def send_loop_sent_def
      call_command_phase_def do_send_def needs_checksum_def checksum_enabled_def
      do_send_without_checksum_def token_clear_def emit_def
      sending_example_def init_protocol_def sample_env_def sample_flavor_def fresh_entry_def
      text_command_def is_gcode_def is_atcommand_def code_def
      new_actions_def outcome_state_def Let_def)
qed


end
